theory Spec2Isabelle
  imports Complex_Main
begin

section \<open>The multi-agent research system of research\_agent.py\<close>

text \<open>
  A shallow embedding of the class \<open>MultiAgentResearchSystem\<close>. The object's only field,
  \<open>research_database\<close>, is passed in and returned. The language-model client and the
  evaluation client are external: they are parameters of the model, and every theorem
  holds for all of them. A client takes the state of the outside world and a request and
  gives an outcome and the next state of the world, so that two calls with the same
  request may answer differently. Printing and the tracing decorators are left out.
\<close>

subsection \<open>Python strings\<close>

text \<open>
  A Python \<open>str\<close> is a list of characters; a \<open>char\<close> stands for the code point of the
  same number (U+0000 to U+00FF).
\<close>

definition isspace :: "char \<Rightarrow> bool" where
  \<comment> \<open>\<open>str.isspace\<close> on one character, for the code points below 256\<close>
  "isspace c \<longleftrightarrow>
     c \<in> set [CHR 0x09, CHR 0x0A, CHR 0x0B, CHR 0x0C, CHR 0x0D,
               CHR 0x1C, CHR 0x1D, CHR 0x1E, CHR 0x1F, CHR 0x20, CHR 0x85, CHR 0xA0]"

definition strip :: "string \<Rightarrow> string" where
  \<comment> \<open>\<open>s.strip()\<close>\<close>
  "strip s = rev (dropWhile isspace (rev (dropWhile isspace s)))"

fun split_from :: "char \<Rightarrow> string \<Rightarrow> string \<Rightarrow> string list" where
  \<comment> \<open>the pieces of the rest of the text, \<open>cur\<close> being the piece read so far, reversed\<close>
  "split_from sep cur [] = [rev cur]"
| "split_from sep cur (c # cs) =
     (if c = sep then rev cur # split_from sep [] cs else split_from sep (c # cur) cs)"

definition split :: "string \<Rightarrow> char \<Rightarrow> string list" where
  \<comment> \<open>\<open>s.split(sep)\<close> for a separator of one character: empty pieces are kept\<close>
  "split s sep = split_from sep [] s"

definition startswith :: "string \<Rightarrow> string \<Rightarrow> bool" where
  \<comment> \<open>\<open>s.startswith(p)\<close>\<close>
  "startswith s p \<longleftrightarrow> take (length p) s = p"

fun join :: "string \<Rightarrow> string list \<Rightarrow> string" where
  \<comment> \<open>\<open>sep.join(xs)\<close>\<close>
  "join sep [] = []"
| "join sep [x] = x"
| "join sep (x # y # ys) = x @ sep @ join sep (y # ys)"

fun str_nat :: "nat \<Rightarrow> string" where
  \<comment> \<open>\<open>str(n)\<close> for \<open>n \<ge> 0\<close>: the decimal digits\<close>
  "str_nat n =
     (if n < 10 then [''0123456789'' ! n]
      else str_nat (n div 10) @ [''0123456789'' ! (n mod 10)])"

declare str_nat.simps [simp del]

definition hex2 :: "char \<Rightarrow> string" where
  \<comment> \<open>the two lower-case hexadecimal digits of a code point below 256\<close>
  "hex2 c = [''0123456789abcdef'' ! (of_char c div 16), ''0123456789abcdef'' ! (of_char c mod 16)]"

definition repr_char :: "char \<Rightarrow> char \<Rightarrow> string" where
  \<comment> \<open>one character inside \<open>repr(s)\<close>, \<open>q\<close> being the quote chosen for \<open>s\<close>\<close>
  "repr_char q c =
     (if c = q \<or> c = CHR 0x5C then [CHR 0x5C, c]
      else if c = CHR 0x09 then [CHR 0x5C, CHR ''t'']
      else if c = CHR 0x0A then [CHR 0x5C, CHR ''n'']
      else if c = CHR 0x0D then [CHR 0x5C, CHR ''r'']
      else if (of_char c :: nat) < 32 \<or> (of_char c :: nat) = 127
              \<or> (128 \<le> (of_char c :: nat) \<and> (of_char c :: nat) \<le> 160)
              \<or> (of_char c :: nat) = 173
        then [CHR 0x5C, CHR ''x''] @ hex2 c
      else [c])"

definition repr_str :: "string \<Rightarrow> string" where
  \<comment> \<open>\<open>repr(s)\<close>: double quotes only when \<open>s\<close> has a single quote and no double quote\<close>
  "repr_str s =
     (let q = (if CHR 0x27 \<in> set s \<and> CHR 0x22 \<notin> set s then CHR 0x22 else CHR 0x27)
      in [q] @ concat (map (repr_char q) s) @ [q])"

definition repr_list :: "string list \<Rightarrow> string" where
  \<comment> \<open>\<open>repr(xs)\<close> of a list of strings, what an f-string writes for \<open>{xs}\<close>\<close>
  "repr_list xs = ''['' @ join '', '' (map repr_str xs) @ '']''"

subsection \<open>Data\<close>

record search_result =
  query :: string
  results :: "string list"
  sources :: "string list"

record agent_record =
  agent_id :: int
  topic :: string
  findings :: string
  sources :: "string list"
  search_query :: string

record final_report =
  research_question :: string
  subtopics :: "string list"
  individual_research :: "agent_record list"
  final_synthesis :: string
  total_agents_used :: nat

text \<open>
  An exception is an instance of \<open>Exception\<close>, which is what every handler of the file
  catches; it carries the text that \<open>str(e)\<close> gives.
\<close>

datatype exn = Exception string

fun str :: "exn \<Rightarrow> string" where
  "str (Exception msg) = msg"

subsection \<open>The language-model client\<close>

record message =
  role :: string
  content :: string

record chat_request =
  model :: string
  messages :: "message list"
  max_tokens :: nat

text \<open>
  A completion holds the list \<open>choices\<close>, each choice given by the content of its
  message, which is text. The call \<open>client.chat.completions.create\<close> raises, or returns
  \<open>None\<close>, or returns a completion.
\<close>

datatype completion = Completion (choices: "string list")

datatype llm_outcome = Raises exn | Returns "completion option"

type_synonym 'w llm = "'w \<Rightarrow> chat_request \<Rightarrow> llm_outcome \<times> 'w"

definition usable :: "completion option \<Rightarrow> bool" where
  \<comment> \<open>the test \<open>response and response.choices\<close>\<close>
  "usable response \<longleftrightarrow> (case response of None \<Rightarrow> False | Some r \<Rightarrow> choices r \<noteq> [])"

definition first_content :: "completion option \<Rightarrow> string" where
  \<comment> \<open>\<open>response.choices[0].message.content\<close>, read only where \<open>usable\<close> holds\<close>
  "first_content response = (case response of Some (Completion (c # _)) \<Rightarrow> c | _ \<Rightarrow> [])"

subsection \<open>Tools\<close>

definition web_search :: "string \<Rightarrow> search_result" where
  "web_search q =
     \<lparr>query = q,
      results = [''Research finding about '' @ q @ '' from source 1'',
                 ''Additional information on '' @ q @ '' from source 2'',
                 ''Expert analysis of '' @ q @ '' from source 3''],
      sources = [''source1.com'', ''source2.org'', ''source3.edu'']\<rparr>"

definition store_research :: "agent_record list \<Rightarrow> agent_record \<Rightarrow> bool \<times> agent_record list" where
  \<comment> \<open>appends to \<open>self.research_database\<close> and returns \<open>True\<close>\<close>
  "store_research research_database data = (True, research_database @ [data])"

subsection \<open>The research agent\<close>

definition research_request :: "string \<Rightarrow> search_result \<Rightarrow> chat_request" where
  "research_request subject search_results =
     \<lparr>model = ''gpt-3.5-turbo'',
      messages =
        [\<lparr>role = ''system'',
          content = ''You are a research agent specializing in '' @ subject
            @ ''. Provide detailed analysis based on the search results.''\<rparr>,
         \<lparr>role = ''user'',
          content = ''Analyze this research data: '' @ repr_list (results search_results)\<rparr>],
      max_tokens = 300\<rparr>"

definition research_agent_try ::
  "'w llm \<Rightarrow> string \<Rightarrow> int \<Rightarrow> 'w \<times> agent_record list
     \<Rightarrow> (exn + agent_record) \<times> 'w \<times> agent_record list" where
  \<comment> \<open>the \<open>try\<close> block of \<open>research_agent\<close>: \<open>Inl\<close> is an exception leaving it\<close>
  "research_agent_try llm subject ident s =
     (case s of (w, research_database) \<Rightarrow>
        let search_results = web_search (subject @ '' research analysis'') in
        (case llm w (research_request subject search_results) of
           (Raises e, w') \<Rightarrow> (Inl e, w', research_database)
         | (Returns response, w') \<Rightarrow>
             let analysis =
                   (if usable response then first_content response
                    else ''Analysis of '' @ subject @ '' based on available research data.'');
                 research_data =
                   \<lparr>agent_id = ident, topic = subject, findings = analysis,
                    sources = search_result.sources search_results,
                    search_query = query search_results\<rparr>;
                 (stored, research_database') = store_research research_database research_data
             in (Inr research_data, w', research_database')))"

definition degraded :: "string \<Rightarrow> int \<Rightarrow> exn \<Rightarrow> agent_record" where
  \<comment> \<open>the record built in the \<open>except\<close> block of \<open>research_agent\<close>\<close>
  "degraded subject ident e =
     \<lparr>agent_id = ident, topic = subject, findings = ''Research failed: '' @ str e,
      sources = [], search_query = subject\<rparr>"

definition research_agent ::
  "'w llm \<Rightarrow> string \<Rightarrow> int \<Rightarrow> 'w \<times> agent_record list
     \<Rightarrow> agent_record \<times> 'w \<times> agent_record list" where
  "research_agent llm subject ident s =
     (case research_agent_try llm subject ident s of
        (Inr research_data, s') \<Rightarrow> (research_data, s')
      | (Inl e, s') \<Rightarrow> (degraded subject ident e, s'))"

subsection \<open>The lead agent\<close>

definition planning_request :: "string \<Rightarrow> chat_request" where
  "planning_request question =
     \<lparr>model = ''gpt-3.5-turbo'',
      messages =
        [\<lparr>role = ''system'',
          content = ''You are a research coordinator. Break down complex research questions into 3 specific subtopics for specialized agents.''\<rparr>,
         \<lparr>role = ''user'',
          content = ''Break down this research question into 3 subtopics: '' @ question\<rparr>],
      max_tokens = 200\<rparr>"

definition parse_subtopics :: "string \<Rightarrow> string list" where
  \<comment> \<open>the list comprehension and its slice \<open>[:3]\<close>\<close>
  "parse_subtopics subtopics_text =
     take 3 [strip t. t \<leftarrow> split subtopics_text (CHR 0x0A),
                      strip t \<noteq> [] \<and> \<not> startswith (strip t) ''#'']"

definition default_subtopics :: "string list" where
  "default_subtopics = [''Technical challenges'', ''Economic factors'', ''Policy considerations'']"

definition decompose :: "'w llm \<Rightarrow> string \<Rightarrow> 'w \<Rightarrow> (exn + string list) \<times> 'w" where
  \<comment> \<open>the planning call, the parsing of its answer and the fallback\<close>
  "decompose llm question w =
     (case llm w (planning_request question) of
        (Raises e, w') \<Rightarrow> (Inl e, w')
      | (Returns planning_response, w') \<Rightarrow>
          let parsed = (if usable planning_response
                        then parse_subtopics (first_content planning_response) else []);
              plan = (if parsed = [] then default_subtopics else parsed)
          in (Inr plan, w'))"

text \<open>
  The loop over \<open>enumerate(subtopics)\<close>. The call of the worker stands in a \<open>try\<close> of its
  own, so the loop is written for any worker, one that may raise: a result is appended,
  an exception is dropped and the loop goes on. \<open>i\<close> is the index that \<open>enumerate\<close> has
  reached.
\<close>

fun delegate ::
  "('s \<Rightarrow> string \<Rightarrow> int \<Rightarrow> (exn + agent_record) \<times> 's) \<Rightarrow> nat \<Rightarrow> string list
     \<Rightarrow> agent_record list \<Rightarrow> 's \<Rightarrow> agent_record list \<times> 's" where
  "delegate worker i [] research_results s = (research_results, s)"
| "delegate worker i (subtopic # rest) research_results s =
     (case worker s subtopic (int i + 1) of
        (Inr result, s') \<Rightarrow> delegate worker (i + 1) rest (research_results @ [result]) s'
      | (Inl e, s') \<Rightarrow> delegate worker (i + 1) rest research_results s')"

definition call_research_agent ::
  "'w llm \<Rightarrow> 'w \<times> agent_record list \<Rightarrow> string \<Rightarrow> int
     \<Rightarrow> (exn + agent_record) \<times> 'w \<times> agent_record list" where
  \<comment> \<open>\<open>self.research_agent(subtopic, agent_id=i+1)\<close> as the loop sees it: it returns\<close>
  "call_research_agent llm s subtopic ident =
     (case research_agent llm subtopic ident s of (result, s') \<Rightarrow> (Inr result, s'))"

definition synthesis_request :: "string \<Rightarrow> string \<Rightarrow> chat_request" where
  "synthesis_request question all_findings =
     \<lparr>model = ''gpt-3.5-turbo'',
      messages =
        [\<lparr>role = ''system'',
          content = ''You are a senior researcher. Synthesize multiple research findings into a comprehensive report.''\<rparr>,
         \<lparr>role = ''user'',
          content = ''Original question: '' @ question @ ''\<newline>\<newline>Research findings:\<newline>''
            @ all_findings @ ''\<newline>\<newline>Create a comprehensive synthesis.''\<rparr>],
      max_tokens = 500\<rparr>"

definition synthesize ::
  "'w llm \<Rightarrow> string \<Rightarrow> string list \<Rightarrow> agent_record list \<Rightarrow> 'w
     \<Rightarrow> (exn + final_report) \<times> 'w" where
  \<comment> \<open>from \<open>if research_results:\<close> to \<open>return final_report\<close>\<close>
  "synthesize llm question plan research_results w =
     (case
        (if research_results \<noteq> [] then
           let all_findings = join ''\<newline>'' (map findings research_results) in
           (case llm w (synthesis_request question all_findings) of
              (Raises e, w') \<Rightarrow> (Inl e, w')
            | (Returns synthesis_response, w') \<Rightarrow>
                (Inr (if usable synthesis_response then first_content synthesis_response
                      else ''Synthesis of research on: '' @ question
                        @ ''\<newline>\<newline>Based on findings from ''
                        @ str_nat (length research_results) @ '' research agents.''), w'))
         else (Inr ''Research could not be completed due to technical issues.'', w))
      of
        (Inl e, w') \<Rightarrow> (Inl e, w')
      | (Inr synthesis, w') \<Rightarrow>
          (Inr \<lparr>research_question = question, subtopics = plan,
                individual_research = research_results, final_synthesis = synthesis,
                total_agents_used = length research_results\<rparr>, w'))"

definition lead_agent_try ::
  "'w llm \<Rightarrow> string \<Rightarrow> 'w \<times> agent_record list
     \<Rightarrow> (exn + final_report) \<times> 'w \<times> agent_record list" where
  \<comment> \<open>the outer \<open>try\<close> block of \<open>lead_agent\<close>: \<open>Inl\<close> is an exception leaving it\<close>
  "lead_agent_try llm question s =
     (case s of (w, research_database) \<Rightarrow>
        (case decompose llm question w of
           (Inl e, w1) \<Rightarrow> (Inl e, w1, research_database)
         | (Inr plan, w1) \<Rightarrow>
             (case delegate (call_research_agent llm) 0 plan [] (w1, research_database) of
                (research_results, w2, research_database') \<Rightarrow>
                  (case synthesize llm question plan research_results w2 of
                     (outcome, w3) \<Rightarrow> (outcome, w3, research_database')))))"

definition minimal_report :: "string \<Rightarrow> exn \<Rightarrow> final_report" where
  \<comment> \<open>the report built in the outer \<open>except\<close> block\<close>
  "minimal_report question e =
     \<lparr>research_question = question, subtopics = [''Error occurred''],
      individual_research = [],
      final_synthesis = ''Research failed due to error: '' @ str e,
      total_agents_used = 0\<rparr>"

definition lead_agent ::
  "'w llm \<Rightarrow> string \<Rightarrow> 'w \<times> agent_record list \<Rightarrow> final_report \<times> 'w \<times> agent_record list" where
  "lead_agent llm question s =
     (case lead_agent_try llm question s of
        (Inr final_report, s') \<Rightarrow> (final_report, s')
      | (Inl e, s') \<Rightarrow> (minimal_report question e, s'))"

subsection \<open>The quality evaluation\<close>

record example =
  input :: string
  actual_output :: string
  retrieval_context :: "string list"

datatype scorer = FaithfulnessScorer (threshold: real) | AnswerRelevancyScorer (threshold: real)

record evaluation_request =
  examples :: "example list"
  scorers :: "scorer list"
  model :: string
  project_name :: string

text \<open>
  What \<open>eval_client.run_evaluation\<close> gives: it raises, or returns a list of results. A
  result has \<open>success\<close> and \<open>scorers_data\<close>, a list of entries with \<open>name\<close> and \<open>score\<close>;
  the scores are only passed on, so their type is left open.
\<close>

record 'v scorer_data =
  name :: string
  score :: 'v

record 'v scoring_result =
  success :: bool
  scorers_data :: "'v scorer_data list"

datatype 'v evaluation_outcome =
  Evaluation_raises exn | Evaluation_returns "'v scoring_result list"

type_synonym 'v evaluation_service = "evaluation_request \<Rightarrow> 'v evaluation_outcome"

text \<open>The two dicts that \<open>evaluate_research_quality\<close> returns, by their keys.\<close>

datatype 'v evaluation_summary =
  Summary (evaluation_success: bool) (scores: "string \<rightharpoonup> 'v")
    (evaluation_details: "'v scorer_data list")
| Failure (evaluation_success: bool) (error: string)

definition evaluation_request_of :: "final_report \<Rightarrow> evaluation_request" where
  \<comment> \<open>the example and the scorers, built before the \<open>try\<close>, and the arguments of the call\<close>
  "evaluation_request_of report =
     (let example =
            \<lparr>input = research_question report, actual_output = final_synthesis report,
             retrieval_context = map findings (individual_research report)\<rparr>;
          scorers = [FaithfulnessScorer 0.7, AnswerRelevancyScorer 0.6]
      in \<lparr>examples = [example], scorers = scorers, model = ''gpt-3.5-turbo'',
          project_name = ''multi_agent_research_eval''\<rparr>)"

definition score_dict :: "'v scorer_data list \<Rightarrow> (string \<rightharpoonup> 'v)" where
  \<comment> \<open>the dict comprehension \<open>{scorer.name: scorer.score for scorer in ...}\<close>: a later
      entry of the same name replaces an earlier one\<close>
  "score_dict ds = fold (\<lambda>d m. m(name d \<mapsto> score d)) ds Map.empty"

definition evaluate_research_quality_try ::
  "'v evaluation_service \<Rightarrow> final_report \<Rightarrow> exn + 'v evaluation_summary" where
  \<comment> \<open>the \<open>try\<close> block: \<open>results[0]\<close> raises IndexError on an empty list\<close>
  "evaluate_research_quality_try service report =
     (case service (evaluation_request_of report) of
        Evaluation_raises e \<Rightarrow> Inl e
      | Evaluation_returns [] \<Rightarrow> Inl (Exception ''list index out of range'')
      | Evaluation_returns (r # _) \<Rightarrow>
          Inr (Summary (success r) (score_dict (scorers_data r)) (scorers_data r)))"

definition evaluate_research_quality ::
  "'v evaluation_service \<Rightarrow> final_report \<Rightarrow> 'v evaluation_summary" where
  "evaluate_research_quality service report =
     (case evaluate_research_quality_try service report of
        Inr evaluation_summary \<Rightarrow> evaluation_summary
      | Inl e \<Rightarrow> Failure False (str e))"

subsection \<open>The parsing of subtopics, in words\<close>

text \<open>
  The description of the parsing step by step, to be compared with \<open>parse_subtopics\<close>.
\<close>

definition spec_subtopics :: "string \<Rightarrow> string list" where
  "spec_subtopics text =
     (let lines = split text (CHR 0x0A);
          not_empty = filter (\<lambda>l. strip l \<noteq> []) lines;
          not_heading = filter (\<lambda>l. case strip l of [] \<Rightarrow> True | c # _ \<Rightarrow> c \<noteq> CHR ''#'') not_empty;
          stripped = map strip not_heading
      in take 3 stripped)"

subsection \<open>Sample clients\<close>

text \<open>
  Clients and a worker for the concrete runs below: a client that always raises, one that
  always returns \<open>None\<close>, one that answers with a heading and blank lines only, a worker
  that raises at its second call, and two evaluation services.
\<close>

definition raising_llm :: "unit llm" where
  "raising_llm w request = (Raises (Exception ''connection refused''), w)"

definition silent_llm :: "unit llm" where
  "silent_llm w request = (Returns None, w)"

definition heading_llm :: "unit llm" where
  "heading_llm w request = (Returns (Some (Completion [''# Plan\<newline>   \<newline>''])), w)"

definition flaky_worker :: "nat \<Rightarrow> string \<Rightarrow> int \<Rightarrow> (exn + agent_record) \<times> nat" where
  "flaky_worker n t a =
     (if n = 1 then Inl (Exception ''timeout'')
      else Inr \<lparr>agent_id = a, topic = t, findings = ''text'', sources = [], search_query = t\<rparr>,
      n + 1)"

definition raising_service :: "real evaluation_service" where
  "raising_service request = Evaluation_raises (Exception ''service unavailable'')"

definition scoring_service :: "real evaluation_service" where
  "scoring_service request =
     Evaluation_returns
       [\<lparr>success = True,
         scorers_data = [\<lparr>name = ''Faithfulness'', score = 0.9\<rparr>,
                         \<lparr>name = ''Answer Relevancy'', score = 0.8\<rparr>]\<rparr>]"

subsection \<open>The search tool\<close>

text \<open>
  Claim C10: for every query, \<open>web_search\<close> returns a result whose \<open>query\<close> is the query
  given, whose \<open>results\<close> are three strings that each contain the query, and whose
  \<open>sources\<close> are the three fixed names. It is a function of the query alone: it takes no
  client and no state.
\<close>

theorem web_search_mock:
  "query (web_search q) = q
   \<and> length (results (web_search q)) = 3
   \<and> (\<forall>r \<in> set (results (web_search q)). \<exists>pre post. r = pre @ q @ post)
   \<and> search_result.sources (web_search q) = [''source1.com'', ''source2.org'', ''source3.edu'']"
proof -
  have "\<exists>pre post. ''Research finding about '' @ q @ '' from source 1'' = pre @ q @ post"
    by blast
  moreover have "\<exists>pre post. ''Additional information on '' @ q @ '' from source 2'' = pre @ q @ post"
    by blast
  moreover have "\<exists>pre post. ''Expert analysis of '' @ q @ '' from source 3'' = pre @ q @ post"
    by blast
  ultimately show ?thesis
    by (simp add: web_search_def)
qed

theorem web_search_mock_witness:
  "query (web_search ''solar'') = ''solar''
   \<and> (\<exists>pre post. ''Expert analysis of solar from source 3'' = pre @ ''solar'' @ post)"
proof -
  have "''Expert analysis of solar from source 3'' \<in> set (results (web_search ''solar''))"
    by (simp add: web_search_def)
  with web_search_mock [of "''solar''"] show ?thesis
    by blast
qed

subsection \<open>The research agent: results and the store\<close>

lemma research_agent_try_cases:
  "research_agent_try llm t a (w, db) =
     (case llm w (research_request t (web_search (t @ '' research analysis''))) of
        (Raises e, w') \<Rightarrow> (Inl e, w', db)
      | (Returns response, w') \<Rightarrow>
          (Inr \<lparr>agent_id = a, topic = t,
                findings = (if usable response then first_content response
                            else ''Analysis of '' @ t @ '' based on available research data.''),
                sources = [''source1.com'', ''source2.org'', ''source3.edu''],
                search_query = t @ '' research analysis''\<rparr>, w',
           db @ [\<lparr>agent_id = a, topic = t,
                findings = (if usable response then first_content response
                            else ''Analysis of '' @ t @ '' based on available research data.''),
                sources = [''source1.com'', ''source2.org'', ''source3.edu''],
                search_query = t @ '' research analysis''\<rparr>]))"
  by (simp add: research_agent_try_def web_search_def store_research_def Let_def
      split: prod.splits llm_outcome.splits)

lemma research_agent_cases:
  "research_agent llm t a (w, db) =
     (case llm w (research_request t (web_search (t @ '' research analysis''))) of
        (Raises e, w') \<Rightarrow> (degraded t a e, w', db)
      | (Returns response, w') \<Rightarrow>
          (\<lparr>agent_id = a, topic = t,
            findings = (if usable response then first_content response
                        else ''Analysis of '' @ t @ '' based on available research data.''),
            sources = [''source1.com'', ''source2.org'', ''source3.edu''],
            search_query = t @ '' research analysis''\<rparr>, w',
           db @ [\<lparr>agent_id = a, topic = t,
                findings = (if usable response then first_content response
                            else ''Analysis of '' @ t @ '' based on available research data.''),
                sources = [''source1.com'', ''source2.org'', ''source3.edu''],
                search_query = t @ '' research analysis''\<rparr>]))"
  by (simp add: research_agent_def research_agent_try_cases
      split: prod.splits llm_outcome.splits)

lemma research_agent_id_topic:
  "research_agent llm t a s = (r, s') \<Longrightarrow> agent_id r = a \<and> topic r = t"
  by (cases s) (auto simp: research_agent_cases degraded_def split: prod.splits llm_outcome.splits)

text \<open>
  Claim C3: for every topic and agent id, \<open>research_agent\<close> returns a record with that
  agent id and topic, and when an exception leaves its \<open>try\<close> block the record is the
  degraded one: findings \<open>"Research failed: "\<close> followed by the error text, no sources,
  and the topic as search query.
\<close>

theorem research_agent_never_raises:
  "(\<exists>r s'. research_agent llm t a s = (r, s') \<and> agent_id r = a \<and> topic r = t)
   \<and> (\<forall>e s'. research_agent_try llm t a s = (Inl e, s') \<longrightarrow>
        research_agent llm t a s =
          (\<lparr>agent_id = a, topic = t, findings = ''Research failed: '' @ str e,
            sources = [], search_query = t\<rparr>, s'))"
proof (intro conjI allI impI)
  obtain r s' where h: "research_agent llm t a s = (r, s')"
    by (cases "research_agent llm t a s") auto
  with research_agent_id_topic [OF h]
  show "\<exists>r s'. research_agent llm t a s = (r, s') \<and> agent_id r = a \<and> topic r = t"
    by blast
next
  fix e s' assume "research_agent_try llm t a s = (Inl e, s')"
  then show "research_agent llm t a s =
          (\<lparr>agent_id = a, topic = t, findings = ''Research failed: '' @ str e,
            sources = [], search_query = t\<rparr>, s')"
    by (simp add: research_agent_def degraded_def)
qed

theorem research_agent_never_raises_witness:
  "research_agent_try raising_llm ''solar'' 7 ((), [])
     = (Inl (Exception ''connection refused''), (), [])
   \<and> research_agent raising_llm ''solar'' 7 ((), []) =
     (\<lparr>agent_id = 7, topic = ''solar'', findings = ''Research failed: connection refused'',
       sources = [], search_query = ''solar''\<rparr>, (), [])"
proof -
  have h: "research_agent_try raising_llm ''solar'' 7 ((), [])
             = (Inl (Exception ''connection refused''), (), [])"
    by (simp add: research_agent_try_cases raising_llm_def)
  with research_agent_never_raises [of raising_llm "''solar''" 7 "((), [])"] show ?thesis
    by simp
qed

text \<open>
  Claim C9, in the form that holds of the code: a record built by an invocation whose
  language-model call returns
  is appended to \<open>research_database\<close>, which grows by exactly that record; when the call
  raises, the degraded record is returned without being appended and the store is as it
  was before.
\<close>

theorem research_agent_store:
  "research_agent llm t a (w, db) = (r, w', db') \<Longrightarrow>
   (case fst (llm w (research_request t (web_search (t @ '' research analysis'')))) of
      Returns response \<Rightarrow> db' = db @ [r]
    | Raises e \<Rightarrow> db' = db \<and> r = degraded t a e)"
  by (auto simp: research_agent_cases split: prod.splits llm_outcome.splits)

theorem research_agent_store_witness:
  "snd (snd (research_agent silent_llm ''solar'' 1 ((), [])))
     = [] @ [fst (research_agent silent_llm ''solar'' 1 ((), []))]
   \<and> snd (snd (research_agent raising_llm ''solar'' 1 ((), []))) = []"
proof -
  obtain r w' db' where a: "research_agent silent_llm ''solar'' 1 ((), []) = (r, w', db')"
    by (cases "research_agent silent_llm ''solar'' 1 ((), [])") auto
  obtain r2 w2 db2 where b: "research_agent raising_llm ''solar'' 1 ((), []) = (r2, w2, db2)"
    by (cases "research_agent raising_llm ''solar'' 1 ((), [])") auto
  from research_agent_store [OF a] have "db' = [] @ [r]"
    by (simp add: silent_llm_def)
  moreover from research_agent_store [OF b] have "db2 = []"
    by (simp add: raising_llm_def)
  ultimately show ?thesis using a b by simp
qed

text \<open>
  Claim C9 in its general form has every record appended, the degraded ones too. With a
  client that raises, the degraded record is returned and the store stays empty.
\<close>

theorem research_agent_store_counterexample:
  "fst (research_agent raising_llm ''solar'' 1 ((), [])) =
     \<lparr>agent_id = 1, topic = ''solar'', findings = ''Research failed: connection refused'',
      sources = [], search_query = ''solar''\<rparr>
   \<and> snd (snd (research_agent raising_llm ''solar'' 1 ((), [])))
       \<noteq> [] @ [fst (research_agent raising_llm ''solar'' 1 ((), []))]"
  by (simp add: research_agent_cases raising_llm_def degraded_def)

subsection \<open>Parsing and decomposition\<close>

lemma length_parse_subtopics: "length (parse_subtopics text) \<le> 3"
  by (simp add: parse_subtopics_def)

lemma comprehension_map_filter:
  "concat (map (\<lambda>t. if P t then [f t] else []) xs) = map f (filter P xs)"
  by (induction xs) auto

lemma startswith_hash:
  "startswith s ''#'' \<longleftrightarrow> (case s of [] \<Rightarrow> False | c # _ \<Rightarrow> c = CHR ''#'')"
  by (cases s) (auto simp: startswith_def)

text \<open>
  Claim C5: the subtopics parsed from a response text are what the description in words
  gives (\<open>spec_subtopics\<close>): split into lines, drop the lines that are empty once
  stripped, drop those whose stripped form begins with \<open>#\<close>, strip the rest, keep the
  first three.
\<close>

theorem parse_subtopics_spec: "parse_subtopics text = spec_subtopics text"
proof -
  have "filter (\<lambda>t. strip t \<noteq> [] \<and> \<not> startswith (strip t) ''#'') xs
        = filter (\<lambda>l. case strip l of [] \<Rightarrow> True | c # _ \<Rightarrow> c \<noteq> CHR ''#'')
            (filter (\<lambda>l. strip l \<noteq> []) xs)" for xs
    by (induction xs) (auto simp: startswith_hash split: list.splits)
  then show ?thesis
    by (simp add: parse_subtopics_def spec_subtopics_def comprehension_map_filter Let_def)
qed

lemma decompose_Inr:
  "decompose llm q w = (Inr plan, w') \<Longrightarrow> plan \<noteq> [] \<and> length plan \<le> 3"
  by (auto simp: decompose_def Let_def default_subtopics_def length_parse_subtopics
      split: prod.splits llm_outcome.splits if_splits)

lemma decompose_Returns:
  "llm w (planning_request q) = (Returns response, w') \<Longrightarrow>
   decompose llm q w =
     (Inr (if usable response \<and> parse_subtopics (first_content response) \<noteq> []
           then parse_subtopics (first_content response) else default_subtopics), w')"
  by (simp add: decompose_def Let_def)

lemma parse_heading: "parse_subtopics ''# Plan\<newline>   \<newline>'' = []"
  by (simp add: parse_subtopics_def split_def strip_def isspace_def startswith_def)

subsection \<open>The fan-out loop\<close>

lemma call_research_agent_Inr:
  "\<exists>r s'. call_research_agent llm s t a = (Inr r, s') \<and> agent_id r = a \<and> topic r = t"
proof -
  obtain r s' where h: "research_agent llm t a s = (r, s')"
    by (cases "research_agent llm t a s") auto
  with research_agent_id_topic [OF h] show ?thesis
    by (simp add: call_research_agent_def)
qed

lemma delegate_research_agent:
  "delegate (call_research_agent llm) i plan acc s = (rs, s') \<Longrightarrow>
   \<exists>new. rs = acc @ new \<and> length new = length plan
     \<and> (\<forall>k<length plan. agent_id (new ! k) = int (i + k) + 1 \<and> topic (new ! k) = plan ! k)"
proof (induction plan arbitrary: i acc s)
  case Nil
  then show ?case by simp
next
  case (Cons t plan)
  obtain r s1 where r: "call_research_agent llm s t (int i + 1) = (Inr r, s1)"
    "agent_id r = int i + 1" "topic r = t"
    using call_research_agent_Inr [of llm s t "int i + 1"] by blast
  with Cons.prems have "delegate (call_research_agent llm) (i + 1) plan (acc @ [r]) s1 = (rs, s')"
    by simp
  from Cons.IH [OF this] obtain new where new: "rs = (acc @ [r]) @ new" "length new = length plan"
    "\<forall>k<length plan. agent_id (new ! k) = int (i + 1 + k) + 1 \<and> topic (new ! k) = plan ! k"
    by blast
  have "\<forall>k<length (t # plan). agent_id ((r # new) ! k) = int (i + k) + 1
          \<and> topic ((r # new) ! k) = (t # plan) ! k"
  proof (intro allI impI)
    fix k assume "k < length (t # plan)"
    then show "agent_id ((r # new) ! k) = int (i + k) + 1 \<and> topic ((r # new) ! k) = (t # plan) ! k"
      using r(2,3) new(3) by (cases k) auto
  qed
  with new(1,2) show ?case
    by (intro exI [of _ "r # new"]) simp
qed

lemma delegate_topics:
  assumes "delegate (call_research_agent llm) 0 plan [] s = (rs, s')"
  shows "map topic rs = plan" and "map agent_id rs = map (\<lambda>k. int k + 1) [0..<length plan]"
proof -
  from delegate_research_agent [OF assms] have len: "length rs = length plan"
    and nth: "\<forall>k<length plan. agent_id (rs ! k) = int k + 1 \<and> topic (rs ! k) = plan ! k"
    by auto
  show "map topic rs = plan"
    using len nth by (intro nth_equalityI) auto
  show "map agent_id rs = map (\<lambda>k. int k + 1) [0..<length plan]"
    using len nth by (intro nth_equalityI) auto
qed

lemma delegate_any_worker:
  assumes "\<And>s t a r s'. worker s t a = (Inr r, s') \<Longrightarrow> agent_id r = a \<and> topic r = t"
    and "delegate worker i plan acc s = (rs, s')"
  shows "\<exists>new. rs = acc @ new \<and> length new \<le> length plan
     \<and> (\<forall>r \<in> set new. \<exists>k<length plan. agent_id r = int (i + k) + 1 \<and> topic r = plan ! k)
     \<and> sorted_wrt (<) (map agent_id new)"
  using assms(2)
proof (induction plan arbitrary: i acc s)
  case Nil
  then show ?case by simp
next
  case (Cons t plan)
  obtain x s1 where x: "worker s t (int i + 1) = (x, s1)"
    by (cases "worker s t (int i + 1)") auto
  show ?case
  proof (cases x)
    case (Inl e)
    with Cons.prems x have "delegate worker (i + 1) plan acc s1 = (rs, s')"
      by simp
    from Cons.IH [OF this] obtain new where new: "rs = acc @ new" "length new \<le> length plan"
      "\<forall>r \<in> set new. \<exists>k<length plan. agent_id r = int (i + 1 + k) + 1 \<and> topic r = plan ! k"
      "sorted_wrt (<) (map agent_id new)"
      by blast
    have "\<forall>r \<in> set new. \<exists>k<length (t # plan). agent_id r = int (i + k) + 1 \<and> topic r = (t # plan) ! k"
    proof
      fix r assume "r \<in> set new"
      with new(3) obtain k where "k < length plan" "agent_id r = int (i + 1 + k) + 1" "topic r = plan ! k"
        by blast
      then show "\<exists>k<length (t # plan). agent_id r = int (i + k) + 1 \<and> topic r = (t # plan) ! k"
        by (intro exI [of _ "Suc k"]) simp
    qed
    with new(1,2,4) show ?thesis
      by (intro exI [of _ new]) simp
  next
    case (Inr r)
    with x assms(1) have r: "agent_id r = int i + 1" "topic r = t"
      by blast+
    from Inr Cons.prems x have "delegate worker (i + 1) plan (acc @ [r]) s1 = (rs, s')"
      by simp
    from Cons.IH [OF this] obtain new where new: "rs = (acc @ [r]) @ new" "length new \<le> length plan"
      "\<forall>r \<in> set new. \<exists>k<length plan. agent_id r = int (i + 1 + k) + 1 \<and> topic r = plan ! k"
      "sorted_wrt (<) (map agent_id new)"
      by blast
    have later: "\<forall>r' \<in> set new. \<exists>k<length (t # plan). agent_id r' = int (i + k) + 1 \<and> topic r' = (t # plan) ! k"
    proof
      fix r' assume "r' \<in> set new"
      with new(3) obtain k where "k < length plan" "agent_id r' = int (i + 1 + k) + 1" "topic r' = plan ! k"
        by blast
      then show "\<exists>k<length (t # plan). agent_id r' = int (i + k) + 1 \<and> topic r' = (t # plan) ! k"
        by (intro exI [of _ "Suc k"]) simp
    qed
    have first: "\<exists>k<length (t # plan). agent_id r = int (i + k) + 1 \<and> topic r = (t # plan) ! k"
      using r by (intro exI [of _ 0]) simp
    have "\<forall>r' \<in> set new. agent_id r < agent_id r'"
      using new(3) r(1) by fastforce
    with new(4) have "sorted_wrt (<) (map agent_id (r # new))"
      by simp
    with new(1,2) first later show ?thesis
      by (intro exI [of _ "r # new"]) simp
  qed
qed

subsection \<open>The report\<close>

lemma synthesize_Inr:
  "synthesize llm q plan rs w = (Inr report, w') \<Longrightarrow>
   research_question report = q \<and> subtopics report = plan \<and> individual_research report = rs
   \<and> total_agents_used report = length rs"
  by (auto simp: synthesize_def Let_def split: prod.splits sum.splits if_splits llm_outcome.splits)

lemma lead_agent_try_Inr:
  "lead_agent_try llm q (w, db) = (Inr report, s') \<Longrightarrow>
   \<exists>plan w1 rs w2 db2 w3. decompose llm q w = (Inr plan, w1)
     \<and> delegate (call_research_agent llm) 0 plan [] (w1, db) = (rs, w2, db2)
     \<and> synthesize llm q plan rs w2 = (Inr report, w3) \<and> s' = (w3, db2)"
  by (auto simp: lead_agent_try_def split: prod.splits sum.splits)

lemma lead_agent_try_Inl:
  "lead_agent_try llm q (w, db) = (Inl e, s') \<Longrightarrow> \<exists>w0 request w1. llm w0 request = (Raises e, w1)"
  by (auto simp: lead_agent_try_def decompose_def synthesize_def Let_def
      split: prod.splits sum.splits llm_outcome.splits if_splits)

lemma lead_agent_cases:
  "fst (lead_agent llm q s) =
     (case fst (lead_agent_try llm q s) of Inr report \<Rightarrow> report | Inl e \<Rightarrow> minimal_report q e)"
  by (simp add: lead_agent_def split: prod.splits sum.splits)

text \<open>
  Claim C1: for every question and every client, the report that \<open>lead_agent\<close> returns has
  as many records in \<open>individual_research\<close> as \<open>total_agents_used\<close> says, at most as
  many as it has subtopics, and at most three subtopics.
\<close>

theorem lead_agent_counts:
  "length (individual_research (fst (lead_agent llm q s))) = total_agents_used (fst (lead_agent llm q s))
   \<and> total_agents_used (fst (lead_agent llm q s)) \<le> length (subtopics (fst (lead_agent llm q s)))
   \<and> length (subtopics (fst (lead_agent llm q s))) \<le> 3"
proof (cases "fst (lead_agent_try llm q s)")
  case (Inl e)
  then show ?thesis
    by (simp add: lead_agent_cases minimal_report_def)
next
  case (Inr report)
  obtain w db where s: "s = (w, db)" by (cases s) auto
  from Inr obtain s' where "lead_agent_try llm q (w, db) = (Inr report, s')"
    unfolding s by (cases "lead_agent_try llm q (w, db)") auto
  from lead_agent_try_Inr [OF this] obtain plan w1 rs w2 db2 w3 where
    d: "decompose llm q w = (Inr plan, w1)"
    and l: "delegate (call_research_agent llm) 0 plan [] (w1, db) = (rs, w2, db2)"
    and y: "synthesize llm q plan rs w2 = (Inr report, w3)"
    by blast
  from delegate_research_agent [OF l] have "length rs = length plan" by auto
  with decompose_Inr [OF d] synthesize_Inr [OF y] Inr show ?thesis
    by (simp add: lead_agent_cases)
qed

text \<open>
  Claim C2: \<open>lead_agent\<close> always returns a report. When an exception leaves the outer
  \<open>try\<close> block (decomposition, fan-out or synthesis), the report is the minimal one:
  the question, the single subtopic \<open>"Error occurred"\<close>, no research, a synthesis that
  ends in the error text, and no agent used; the exception is one that the client raised.
\<close>

theorem lead_agent_minimal_report:
  "lead_agent_try llm q s = (Inl e, s') \<Longrightarrow>
   lead_agent llm q s =
     (\<lparr>research_question = q, subtopics = [''Error occurred''], individual_research = [],
       final_synthesis = ''Research failed due to error: '' @ str e, total_agents_used = 0\<rparr>, s')
   \<and> (\<exists>w0 request w1. llm w0 request = (Raises e, w1))"
  using lead_agent_try_Inl [of llm q "fst s" "snd s" e s']
  by (simp add: lead_agent_def minimal_report_def)

theorem lead_agent_minimal_report_witness:
  "lead_agent_try raising_llm ''why'' ((), []) = (Inl (Exception ''connection refused''), (), [])
   \<and> lead_agent raising_llm ''why'' ((), []) =
     (\<lparr>research_question = ''why'', subtopics = [''Error occurred''], individual_research = [],
       final_synthesis = ''Research failed due to error: connection refused'',
       total_agents_used = 0\<rparr>, (), [])"
proof -
  have h: "lead_agent_try raising_llm ''why'' ((), []) = (Inl (Exception ''connection refused''), (), [])"
    by (simp add: lead_agent_try_def decompose_def raising_llm_def)
  from lead_agent_minimal_report [OF h] h show ?thesis
    by simp
qed

text \<open>
  Claim C4: when the planning call returns \<open>None\<close>, or a completion with no choice, or a
  text from which no subtopic is parsed, the subtopics are exactly the three default ones;
  they are the subtopics of the report and the topics of its records, whenever the outer
  \<open>try\<close> block ends without an exception.
\<close>

theorem decompose_fallback:
  assumes "fst (llm w (planning_request q)) = Returns response"
    and "response = None \<or> response = Some (Completion [])
         \<or> (\<exists>text rest. response = Some (Completion (text # rest)) \<and> parse_subtopics text = [])"
  shows "fst (decompose llm q w)
           = Inr [''Technical challenges'', ''Economic factors'', ''Policy considerations'']
         \<and> (\<forall>report. fst (lead_agent_try llm q (w, db)) = Inr report \<longrightarrow>
              subtopics report = [''Technical challenges'', ''Economic factors'', ''Policy considerations'']
              \<and> map topic (individual_research report) = subtopics report)"
proof -
  from assms(1) obtain w1 where c: "llm w (planning_request q) = (Returns response, w1)"
    by (cases "llm w (planning_request q)") auto
  from assms(2) have "\<not> (usable response \<and> parse_subtopics (first_content response) \<noteq> [])"
    by (auto simp: usable_def first_content_def)
  with decompose_Returns [of llm w q response w1] c
  have d: "decompose llm q w = (Inr default_subtopics, w1)"
    by simp
  have "subtopics report = default_subtopics \<and> map topic (individual_research report) = subtopics report"
    if "fst (lead_agent_try llm q (w, db)) = Inr report" for report
  proof -
    from that obtain s' where "lead_agent_try llm q (w, db) = (Inr report, s')"
      by (cases "lead_agent_try llm q (w, db)") auto
    from lead_agent_try_Inr [OF this] d obtain rs w2 db2 w3 where
      l: "delegate (call_research_agent llm) 0 default_subtopics [] (w1, db) = (rs, w2, db2)"
      and y: "synthesize llm q default_subtopics rs w2 = (Inr report, w3)"
      by auto
    from synthesize_Inr [OF y] delegate_topics(1) [OF l] show ?thesis
      by simp
  qed
  with d show ?thesis
    by (simp add: default_subtopics_def)
qed

theorem decompose_fallback_witness:
  "fst (decompose silent_llm ''why'' ())
     = Inr [''Technical challenges'', ''Economic factors'', ''Policy considerations'']
   \<and> fst (decompose heading_llm ''why'' ())
     = Inr [''Technical challenges'', ''Economic factors'', ''Policy considerations'']
   \<and> subtopics (fst (lead_agent silent_llm ''why'' ((), [])))
     = [''Technical challenges'', ''Economic factors'', ''Policy considerations'']"
proof -
  have a: "fst (silent_llm () (planning_request ''why'')) = Returns None"
    by (simp add: silent_llm_def)
  have b: "fst (heading_llm () (planning_request ''why''))
             = Returns (Some (Completion [''# Plan\<newline>   \<newline>'']))"
    by (simp add: heading_llm_def)
  have c: "Some (Completion [''# Plan\<newline>   \<newline>'']) = None
           \<or> Some (Completion [''# Plan\<newline>   \<newline>'']) = Some (Completion [])
           \<or> (\<exists>text rest. Some (Completion [''# Plan\<newline>   \<newline>'']) = Some (Completion (text # rest))
                \<and> parse_subtopics text = [])"
    using parse_heading by simp
  have "\<exists>e. fst (lead_agent_try silent_llm ''why'' ((), [])) = Inl e \<Longrightarrow> False"
    using lead_agent_try_Inl [of silent_llm "''why''" "()" "[]"]
    by (cases "lead_agent_try silent_llm ''why'' ((), [])") (auto simp: silent_llm_def)
  then obtain report where r: "fst (lead_agent_try silent_llm ''why'' ((), [])) = Inr report"
    by (cases "fst (lead_agent_try silent_llm ''why'' ((), []))") auto
  have d: "None = None \<or> None = Some (Completion [])
           \<or> (\<exists>text rest. None = Some (Completion (text # rest)) \<and> parse_subtopics text = [])"
    by simp
  from decompose_fallback [where llm = silent_llm and w = "()" and q = "''why''"
      and response = None and db = "[]", OF a d]
    decompose_fallback [where llm = heading_llm and w = "()" and q = "''why''"
      and response = "Some (Completion [''# Plan\<newline>   \<newline>''])" and db = "[]", OF b c] r
  show ?thesis
    by (simp add: lead_agent_cases)
qed

text \<open>
  Claim C6: in the synthesis step, when some record was collected and the call returns
  \<open>None\<close> or a completion with no choice, \<open>final_synthesis\<close> is the template naming the
  question and the number of records; when no record was collected, \<open>final_synthesis\<close>
  is the fixed failure string, \<open>total_agents_used\<close> is 0 and the client is not called.
\<close>

theorem synthesize_fallbacks:
  "(research_results \<noteq> [] \<longrightarrow>
      fst (llm w (synthesis_request q (join ''\<newline>'' (map findings research_results)))) = Returns response \<longrightarrow>
      response = None \<or> response = Some (Completion []) \<longrightarrow>
      fst (synthesize llm q plan research_results w) =
        Inr \<lparr>research_question = q, subtopics = plan, individual_research = research_results,
             final_synthesis = ''Synthesis of research on: '' @ q @ ''\<newline>\<newline>Based on findings from ''
               @ str_nat (length research_results) @ '' research agents.'',
             total_agents_used = length research_results\<rparr>)
   \<and> (research_results = [] \<longrightarrow>
      synthesize llm q plan research_results w =
        (Inr \<lparr>research_question = q, subtopics = plan, individual_research = [],
              final_synthesis = ''Research could not be completed due to technical issues.'',
              total_agents_used = 0\<rparr>, w))"
  by (auto simp: synthesize_def Let_def usable_def split: prod.splits llm_outcome.splits)

theorem synthesize_fallbacks_witness:
  "fst (synthesize silent_llm ''why'' [''cost'']
          [\<lparr>agent_id = 1, topic = ''cost'', findings = ''text'', sources = [],
            search_query = ''cost''\<rparr>] ()) =
     Inr \<lparr>research_question = ''why'', subtopics = [''cost''],
          individual_research =
            [\<lparr>agent_id = 1, topic = ''cost'', findings = ''text'', sources = [],
              search_query = ''cost''\<rparr>],
          final_synthesis =
            ''Synthesis of research on: why\<newline>\<newline>Based on findings from 1 research agents.'',
          total_agents_used = 1\<rparr>
   \<and> synthesize silent_llm ''why'' [''cost''] [] () =
       (Inr \<lparr>research_question = ''why'', subtopics = [''cost''], individual_research = [],
             final_synthesis = ''Research could not be completed due to technical issues.'',
             total_agents_used = 0\<rparr>, ())"
proof -
  let ?r = "\<lparr>agent_id = 1, topic = ''cost'', findings = ''text'', sources = [],
            search_query = ''cost''\<rparr>"
  have one: "str_nat (Suc 0) = ''1''"
    by (simp add: str_nat.simps)
  have a: "fst (silent_llm () (synthesis_request ''why'' (join ''\<newline>'' (map findings [?r]))))
             = Returns None"
    by (simp add: silent_llm_def)
  from synthesize_fallbacks [where research_results = "[?r]" and llm = silent_llm and w = "()"
      and q = "''why''" and response = None and plan = "[''cost'']"] a
    synthesize_fallbacks [where research_results = "[]" and llm = silent_llm and w = "()"
      and q = "''why''" and response = None and plan = "[''cost'']"]
  show ?thesis
    by (simp add: one)
qed

text \<open>
  Claim C8: in the report of \<open>lead_agent\<close>, the record at position \<open>k\<close> (from 0) has agent
  id \<open>k + 1\<close> and the topic at position \<open>k\<close> of the subtopics. The loop itself, run with
  any worker that hands back the id and topic it was given and may raise, never renumbers:
  every record collected has as agent id the position, counted from 1, of its subtopic,
  and the ids increase along the list.
\<close>

theorem agent_ids_are_positions:
  "(\<forall>k < length (individual_research (fst (lead_agent llm q s))).
      agent_id (individual_research (fst (lead_agent llm q s)) ! k) = int k + 1
      \<and> topic (individual_research (fst (lead_agent llm q s)) ! k)
          = subtopics (fst (lead_agent llm q s)) ! k)
   \<and> ((\<forall>s t a r s'. worker s t a = (Inr r, s') \<longrightarrow> agent_id r = a \<and> topic r = t) \<longrightarrow>
        (\<forall>r \<in> set (fst (delegate worker 0 plan [] s0)).
           \<exists>k<length plan. agent_id r = int k + 1 \<and> topic r = plan ! k)
        \<and> sorted_wrt (<) (map agent_id (fst (delegate worker 0 plan [] s0))))"
proof (intro conjI impI)
  show "\<forall>k < length (individual_research (fst (lead_agent llm q s))).
      agent_id (individual_research (fst (lead_agent llm q s)) ! k) = int k + 1
      \<and> topic (individual_research (fst (lead_agent llm q s)) ! k)
          = subtopics (fst (lead_agent llm q s)) ! k"
  proof (cases "fst (lead_agent_try llm q s)")
    case (Inl e)
    then show ?thesis
      by (simp add: lead_agent_cases minimal_report_def)
  next
    case (Inr report)
    obtain w db where s: "s = (w, db)" by (cases s) auto
    from Inr obtain s' where "lead_agent_try llm q (w, db) = (Inr report, s')"
      unfolding s by (cases "lead_agent_try llm q (w, db)") auto
    from lead_agent_try_Inr [OF this] obtain plan w1 rs w2 db2 w3 where
      l: "delegate (call_research_agent llm) 0 plan [] (w1, db) = (rs, w2, db2)"
      and y: "synthesize llm q plan rs w2 = (Inr report, w3)"
      by blast
    from delegate_research_agent [OF l] synthesize_Inr [OF y] Inr show ?thesis
      by (auto simp: lead_agent_cases)
  qed
next
  assume w: "\<forall>s t a r s'. worker s t a = (Inr r, s') \<longrightarrow> agent_id r = a \<and> topic r = t"
  obtain rs s1 where d: "delegate worker 0 plan [] s0 = (rs, s1)"
    by (cases "delegate worker 0 plan [] s0") auto
  have "\<And>s t a r s'. worker s t a = (Inr r, s') \<Longrightarrow> agent_id r = a \<and> topic r = t"
    using w by blast
  from delegate_any_worker [of worker, OF this d]
  show "\<forall>r \<in> set (fst (delegate worker 0 plan [] s0)).
           \<exists>k<length plan. agent_id r = int k + 1 \<and> topic r = plan ! k"
    and "sorted_wrt (<) (map agent_id (fst (delegate worker 0 plan [] s0)))"
    using d by auto
qed

theorem agent_ids_are_positions_witness:
  "agent_id (individual_research (fst (lead_agent silent_llm ''why'' ((), []))) ! 2) = 3
   \<and> topic (individual_research (fst (lead_agent silent_llm ''why'' ((), []))) ! 2)
       = ''Policy considerations''
   \<and> map agent_id (fst (delegate flaky_worker 0 [''a'', ''b'', ''c''] [] 0)) = [1, 3]
   \<and> sorted_wrt (<) (map agent_id (fst (delegate flaky_worker 0 [''a'', ''b'', ''c''] [] 0)))"
proof -
  have report: "fst (lead_agent silent_llm ''why'' ((), [])) =
      \<lparr>research_question = ''why'', subtopics = default_subtopics,
        individual_research =
          fst (delegate (call_research_agent silent_llm) 0 default_subtopics [] ((), [])),
        final_synthesis = ''Synthesis of research on: why\<newline>\<newline>Based on findings from ''
          @ str_nat 3 @ '' research agents.'',
        total_agents_used = 3\<rparr>"
    by (simp add: lead_agent_def lead_agent_try_def decompose_def silent_llm_def usable_def
        synthesize_def default_subtopics_def call_research_agent_def research_agent_cases
        numeral_3_eq_3)
  then have len: "2 < length (individual_research (fst (lead_agent silent_llm ''why'' ((), []))))"
    and sub: "subtopics (fst (lead_agent silent_llm ''why'' ((), []))) ! 2 = ''Policy considerations''"
    by (simp_all add: default_subtopics_def call_research_agent_def research_agent_cases
        silent_llm_def)
  have w: "\<forall>s t a r s'. flaky_worker s t a = (Inr r, s') \<longrightarrow> agent_id r = a \<and> topic r = t"
    by (auto simp: flaky_worker_def split: if_splits)
  have ids: "map agent_id (fst (delegate flaky_worker 0 [''a'', ''b'', ''c''] [] 0)) = [1, 3]"
    by (simp add: flaky_worker_def)
  from agent_ids_are_positions [of silent_llm "''why''" "((), [])" flaky_worker
      "[''a'', ''b'', ''c'']" 0] len sub w ids
  show ?thesis
    by auto
qed

subsection \<open>The quality evaluation: results\<close>

lemma score_dict_fold_dom:
  "dom (fold (\<lambda>d m. m(name d \<mapsto> score d)) ds m0) = dom m0 \<union> name ` set ds"
  by (induction ds arbitrary: m0) auto

lemma score_dict_fold_Some:
  "fold (\<lambda>d m. m(name d \<mapsto> score d)) ds m0 n = Some v \<Longrightarrow>
   m0 n = Some v \<or> (\<exists>d \<in> set ds. name d = n \<and> score d = v)"
proof (induction ds arbitrary: m0)
  case Nil
  then show ?case by simp
next
  case (Cons d ds)
  from Cons.IH [of "m0(name d \<mapsto> score d)"] Cons.prems show ?case
    by (auto split: if_splits)
qed

text \<open>
  Claim C7: for every report and every evaluation service, \<open>evaluate_research_quality\<close>
  returns a summary. When an exception leaves its \<open>try\<close> block the summary is
  \<open>evaluation_success = False\<close> with the error text; otherwise it holds the \<open>success\<close>
  of the first result, the scores by metric name, each taken from an entry of that
  result, and the entries themselves.
\<close>

theorem evaluate_research_quality_never_raises:
  "(\<forall>e. evaluate_research_quality_try service report = Inl e \<longrightarrow>
      evaluate_research_quality service report = Failure False (str e))
   \<and> (\<forall>summary. evaluate_research_quality_try service report = Inr summary \<longrightarrow>
        evaluate_research_quality service report = summary
        \<and> (\<exists>r rest. service (evaluation_request_of report) = Evaluation_returns (r # rest)
              \<and> summary = Summary (success r) (scores summary) (scorers_data r)
              \<and> dom (scores summary) = name ` set (scorers_data r)
              \<and> (\<forall>n v. scores summary n = Some v \<longrightarrow>
                    (\<exists>d \<in> set (scorers_data r). name d = n \<and> score d = v))))"
proof (intro conjI allI impI)
  fix e assume "evaluate_research_quality_try service report = Inl e"
  then show "evaluate_research_quality service report = Failure False (str e)"
    by (simp add: evaluate_research_quality_def)
next
  fix summary assume h: "evaluate_research_quality_try service report = Inr summary"
  then show "evaluate_research_quality service report = summary"
    by (simp add: evaluate_research_quality_def)
  from h obtain r rest where r: "service (evaluation_request_of report) = Evaluation_returns (r # rest)"
    and s: "summary = Summary (success r) (score_dict (scorers_data r)) (scorers_data r)"
    by (auto simp: evaluate_research_quality_try_def split: evaluation_outcome.splits list.splits)
  have "dom (scores summary) = name ` set (scorers_data r)"
    using s by (simp add: score_dict_def score_dict_fold_dom)
  moreover have "\<forall>n v. scores summary n = Some v \<longrightarrow>
                    (\<exists>d \<in> set (scorers_data r). name d = n \<and> score d = v)"
    using s score_dict_fold_Some [of "scorers_data r" Map.empty] by (auto simp: score_dict_def)
  ultimately show "\<exists>r rest. service (evaluation_request_of report) = Evaluation_returns (r # rest)
              \<and> summary = Summary (success r) (scores summary) (scorers_data r)
              \<and> dom (scores summary) = name ` set (scorers_data r)
              \<and> (\<forall>n v. scores summary n = Some v \<longrightarrow>
                    (\<exists>d \<in> set (scorers_data r). name d = n \<and> score d = v))"
    using r s by (intro exI [of _ r] exI [of _ rest]) simp
qed

theorem evaluate_research_quality_never_raises_witness:
  "evaluate_research_quality raising_service (minimal_report ''why'' (Exception ''none''))
     = Failure False ''service unavailable''
   \<and> evaluation_success
       (evaluate_research_quality scoring_service (minimal_report ''why'' (Exception ''none'')))
   \<and> dom (scores (evaluate_research_quality scoring_service (minimal_report ''why'' (Exception ''none''))))
       = {''Faithfulness'', ''Answer Relevancy''}"
proof -
  let ?R = "minimal_report ''why'' (Exception ''none'')"
  have a: "evaluate_research_quality_try raising_service ?R = Inl (Exception ''service unavailable'')"
    by (simp add: evaluate_research_quality_try_def raising_service_def)
  obtain summary where b: "evaluate_research_quality_try scoring_service ?R = Inr summary"
    by (simp add: evaluate_research_quality_try_def scoring_service_def)
  from evaluate_research_quality_never_raises [of raising_service ?R] a
  have first: "evaluate_research_quality raising_service ?R = Failure False ''service unavailable''"
    by simp
  from evaluate_research_quality_never_raises [of scoring_service ?R] b
  obtain r rest where e: "evaluate_research_quality scoring_service ?R = summary"
    and sv: "scoring_service (evaluation_request_of ?R) = Evaluation_returns (r # rest)"
    and sm: "summary = Summary (success r) (scores summary) (scorers_data r)"
    and dm: "dom (scores summary) = name ` set (scorers_data r)"
    by blast
  from sv have r: "r = \<lparr>success = True,
         scorers_data = [\<lparr>name = ''Faithfulness'', score = 0.9\<rparr>,
                         \<lparr>name = ''Answer Relevancy'', score = 0.8\<rparr>]\<rparr>"
    by (simp add: scoring_service_def)
  have "evaluation_success summary = success r"
    by (subst sm) simp
  with r e have second: "evaluation_success (evaluate_research_quality scoring_service ?R)"
    by simp
  from dm r e have "dom (scores (evaluate_research_quality scoring_service ?R))
           = {''Faithfulness'', ''Answer Relevancy''}"
    by simp
  with second have "evaluation_success (evaluate_research_quality scoring_service ?R)
    \<and> dom (scores (evaluate_research_quality scoring_service ?R))
           = {''Faithfulness'', ''Answer Relevancy''}"
    by simp
  with first show ?thesis
    by simp
qed

end
